theory Spec2Isabelle
  imports Complex_Main
begin

section \<open>The reaper package (reaper/watcher.go)\<close>

subsection \<open>Data\<close>

text \<open>
  A Go \<open>error\<close> value is represented by its message; a function returning \<open>error\<close>
  returns \<open>error option\<close> (\<open>None\<close> is \<open>nil\<close>), a function returning \<open>(T, error)\<close>
  returns \<open>error + T\<close>.
\<close>

type_synonym error = string

text \<open>The package-level variables of watcher.go.\<close>

definition uuidLabel :: string where
  "uuidLabel = ''io.rancher.container.uuid''"

definition serviceNameLabel :: string where
  "serviceNameLabel = ''io.rancher.stack_service.name''"

definition metadataService :: string where
  "metadataService = ''network-services/metadata''"

definition dnsService :: string where
  "dnsService = ''network-services/metadata/dns''"

text \<open>
  \<open>metadata.Host\<close> and \<open>metadata.Container\<close>, with the fields watcher.go reads.
  The field \<open>UUID\<close> of a host is named \<open>host_UUID\<close>, since record fields are global names.
\<close>

record metadata_Host =
  host_UUID :: string

record metadata_Container =
  UUID :: string
  ExternalId :: string
  HostUUID :: string
  Name :: string
  Labels :: "string \<rightharpoonup> string"

text \<open>
  \<open>types.Container\<close> (an entry of the runtime's container list) and \<open>types.ContainerJSON\<close>
  (the answer of an inspect call) of the engine API, with the fields watcher.go reads.
\<close>

record types_Container =
  ID :: string
  State :: string
  Container_Labels :: "string \<rightharpoonup> string"

record types_ContainerJSON =
  ContainerJSON_Name :: string

text \<open>
  Reading a Go \<open>map[string]string\<close> with the one-result form \<open>m[k]\<close> gives the empty
  string for an absent key.
\<close>

definition index :: "(string \<rightharpoonup> string) \<Rightarrow> string \<Rightarrow> string" where
  "index m k = (case m k of None \<Rightarrow> [] | Some v \<Rightarrow> v)"

subsection \<open>Effects\<close>

text \<open>
  Every call the package makes on one of its collaborators (the metadata client, the
  runtime client, the logger, the clock) is recorded, in order, in a history.  Durations
  are counted in nanoseconds, as \<open>time.Duration\<close> does; the timeout of a stop call is a
  pointer in the source, hence an option here.
\<close>

datatype call =
    GetSelfHost_call
  | GetContainers_call
  | ContainerList_call bool
  | ContainerStop_call string "rat option"
  | ContainerInspect_call string
  | ContainerRemove_call string bool
  | Errorf string "string list"
  | Infof string "string list"
  | Sleep rat

text \<open>
  The collaborators are not part of the package.  Each of their methods is a function of
  the history so far and of the arguments of the call, so that an answer may depend on
  everything that happened before; the theorems hold for every such collaborator.
\<close>

record metadata_Client =
  GetSelfHost :: "call list \<Rightarrow> error + metadata_Host"
  GetContainers :: "call list \<Rightarrow> error + metadata_Container list"

record client_Client =
  ContainerList :: "call list \<Rightarrow> bool \<Rightarrow> error + types_Container list"
  ContainerStop :: "call list \<Rightarrow> string \<Rightarrow> rat option \<Rightarrow> error option"
  ContainerInspect :: "call list \<Rightarrow> string \<Rightarrow> error + types_ContainerJSON"
  ContainerRemove :: "call list \<Rightarrow> string \<Rightarrow> bool \<Rightarrow> error option"

text \<open>\<open>type watcher struct { dc; c }\<close>; the fields carry the prefix \<open>w_\<close>.\<close>

record watcher =
  w_dc :: client_Client
  w_c :: metadata_Client

subsection \<open>Removing orphans\<close>

text \<open>\<open>func (w *watcher) removeContainer(container metadata.Container)\<close>\<close>

definition removeContainer :: "watcher \<Rightarrow> metadata_Container \<Rightarrow> call list \<Rightarrow> call list" where
  "removeContainer w container h =
     (let h1 = h @ [ContainerInspect_call (ExternalId container)] in
      case ContainerInspect (w_dc w) h (ExternalId container) of
        Inl err \<Rightarrow> h1 @ [Errorf ''reaper: Inspect failed: %v'' [err]]
      | Inr c \<Rightarrow>
          if ContainerJSON_Name c = ''/rancher-agent'' then h1
          else
            (let h2 = h1 @ [Infof ''reaper:  Removing unmanaged container %s %s''
                              [Name container, ExternalId container]];
                 h3 = h2 @ [ContainerRemove_call (ExternalId container) True] in
             case ContainerRemove (w_dc w) h2 (ExternalId container) True of
               Some err \<Rightarrow> h3 @ [Errorf ''reaper: Removed failed: %v'' [err]]
             | None \<Rightarrow> h3))"

text \<open>The \<open>for _, container := range containers\<close> loop of \<open>onChange\<close>.\<close>

fun onChange_loop ::
  "watcher \<Rightarrow> metadata_Host \<Rightarrow> metadata_Container list \<Rightarrow> call list \<Rightarrow> call list" where
  "onChange_loop w host [] h = h"
| "onChange_loop w host (container # rest) h =
     (if HostUUID container \<noteq> host_UUID host then onChange_loop w host rest h
      else case Labels container uuidLabel of
        None \<Rightarrow> onChange_loop w host rest h
      | Some uuid \<Rightarrow>
          if UUID container \<noteq> uuid
          then onChange_loop w host rest (removeContainer w container h)
          else onChange_loop w host rest h)"

text \<open>\<open>func (w *watcher) onChange(version string) error\<close>\<close>

definition onChange :: "watcher \<Rightarrow> string \<Rightarrow> call list \<Rightarrow> error option \<times> call list" where
  "onChange w version h =
     (let h1 = h @ [GetSelfHost_call] in
      case GetSelfHost (w_c w) h of
        Inl err \<Rightarrow> (Some err, h1)
      | Inr host \<Rightarrow>
          (let h2 = h1 @ [GetContainers_call] in
           case GetContainers (w_c w) h1 of
             Inl err \<Rightarrow> (Some err, h2)
           | Inr containers \<Rightarrow> (None, onChange_loop w host containers h2)))"

text \<open>\<open>func (w *watcher) onChangeNoError(version string)\<close>\<close>

definition onChangeNoError :: "watcher \<Rightarrow> string \<Rightarrow> call list \<Rightarrow> call list" where
  "onChangeNoError w version h =
     (case onChange w version h of
        (Some err, h') \<Rightarrow> h' @ [Errorf ''reaper: Failed to watch for orphan containers: %v'' [err]]
      | (None, h') \<Rightarrow> h')"

subsection \<open>Stopping duplicate singleton services\<close>

text \<open>
  The first loop of \<open>CheckMetadata\<close>: it appends to \<open>metadataIds\<close> and \<open>dnsIds\<close>, which
  are the two accumulators here.
\<close>

fun collectIds ::
  "types_Container list \<Rightarrow> string list \<Rightarrow> string list \<Rightarrow> string list \<times> string list" where
  "collectIds [] metadataIds dnsIds = (metadataIds, dnsIds)"
| "collectIds (container # rest) metadataIds dnsIds =
     (if State container \<noteq> ''running'' then collectIds rest metadataIds dnsIds
      else
        (let metadataIds' =
               (if index (Container_Labels container) uuidLabel \<noteq> []
                   \<and> index (Container_Labels container) serviceNameLabel = metadataService
                then metadataIds @ [ID container] else metadataIds);
             dnsIds' =
               (if index (Container_Labels container) uuidLabel \<noteq> []
                   \<and> index (Container_Labels container) serviceNameLabel = dnsService
                then dnsIds @ [ID container] else dnsIds)
         in collectIds rest metadataIds' dnsIds'))"

text \<open>
  The choice of the containers to stop.  \<open>ids[len(ids)-1]\<close> is only evaluated when
  \<open>len(ids) > 1\<close>, so the index is in range.
\<close>

definition selectToStop :: "string list \<Rightarrow> string list \<Rightarrow> string list" where
  "selectToStop metadataIds dnsIds =
     (let toStop = [];
          toStop = (if length metadataIds > 1
                    then toStop @ [metadataIds ! (length metadataIds - 1)] else toStop);
          toStop = (if length dnsIds > 1
                    then toStop @ [dnsIds ! (length dnsIds - 1)] else toStop)
      in toStop)"

text \<open>The \<open>for _, id := range toStop\<close> loop of \<open>CheckMetadata\<close>.\<close>

fun stopLoop :: "client_Client \<Rightarrow> string list \<Rightarrow> call list \<Rightarrow> call list" where
  "stopLoop dockerClient [] h = h"
| "stopLoop dockerClient (id' # rest) h =
     (let h1 = h @ [Infof ''reaper:  Stopping duplicate metadata/dns service: %s'' [id']];
          t = (0 :: rat);
          h2 = h1 @ [ContainerStop_call id' (Some t)] in
      case ContainerStop dockerClient h1 id' (Some t) of
        Some err \<Rightarrow>
          stopLoop dockerClient rest
            (h2 @ [Errorf ''reaper:  Failed to stop duplicate metadata/dns service: %s'' [id']])
      | None \<Rightarrow> stopLoop dockerClient rest h2)"

text \<open>\<open>func CheckMetadata(dockerClient *client.Client) error\<close>\<close>

definition CheckMetadata :: "client_Client \<Rightarrow> call list \<Rightarrow> error option \<times> call list" where
  "CheckMetadata dockerClient h =
     (let h1 = h @ [ContainerList_call True] in
      case ContainerList dockerClient h True of
        Inl err \<Rightarrow> (Some err, h1)
      | Inr containers \<Rightarrow>
          (let (metadataIds, dnsIds) = collectIds containers [] [];
               toStop = selectToStop metadataIds dnsIds
           in (None, stopLoop dockerClient toStop h1)))"

subsection \<open>The polling loop\<close>

text \<open>\<open>time.Second\<close> and \<open>time.Minute\<close>, in nanoseconds.\<close>

definition Second :: rat where
  "Second = 1000000000"

definition Minute :: rat where
  "Minute = 60 * Second"

text \<open>
  Modelled from the spec: the type \<open>Backoff\<close> and its method \<open>Duration\<close> of the backoff
  library that \<open>watchMetadata\<close> imports, which are not among the source files.  The spec
  (section 4.2) describes a poll-interval value that starts at the minimum, is multiplied
  by the factor after every tick and is capped at the maximum, where it remains.  The
  fields \<open>Min\<close> and \<open>Max\<close> carry the prefix \<open>Backoff_\<close>; \<open>attempt\<close> counts the ticks
  so far and is zero in a struct literal that does not mention it.  The interval is an
  exact rational number of nanoseconds.
\<close>

record Backoff =
  Backoff_Min :: rat
  Backoff_Max :: rat
  Factor :: rat
  attempt :: nat

text \<open>
  Modelled from the spec: \<open>Duration\<close>, the method of the backoff library that is not
  among the source files.  It returns the current interval, the minimum multiplied by the
  factor once per earlier tick and capped at the maximum, and counts the tick.
\<close>

definition Duration :: "Backoff \<Rightarrow> rat \<times> Backoff" where
  "Duration b =
     (min (Backoff_Max b) (Backoff_Min b * Factor b ^ attempt b), b\<lparr>attempt := attempt b + 1\<rparr>)"

text \<open>
  The \<open>for { ... }\<close> loop of \<open>watchMetadata\<close> never ends; the first argument bounds the
  number of ticks that are observed, and the result is the history after that many ticks.
\<close>

fun watchMetadata_loop :: "nat \<Rightarrow> client_Client \<Rightarrow> Backoff \<Rightarrow> call list \<Rightarrow> call list" where
  "watchMetadata_loop 0 dockerClient b h = h"
| "watchMetadata_loop (Suc n) dockerClient b h =
     (case CheckMetadata dockerClient h of
        (err, h1) \<Rightarrow>
          (let h2 = (case err of
                       Some e \<Rightarrow> h1 @ [Errorf ''reaper: Failed to check for bad metadata: %v'' [e]]
                     | None \<Rightarrow> h1)
           in case Duration b of
                (d, b') \<Rightarrow> watchMetadata_loop n dockerClient b' (h2 @ [Sleep d])))"

text \<open>\<open>func watchMetadata(dockerClient *client.Client)\<close>, observed for \<open>n\<close> ticks.\<close>

definition watchMetadata :: "nat \<Rightarrow> client_Client \<Rightarrow> call list \<Rightarrow> call list" where
  "watchMetadata n dockerClient h =
     watchMetadata_loop n dockerClient
       \<lparr>Backoff_Min = 1 * Second, Backoff_Max = 5 * Minute, Factor = 3 / 2, attempt = 0\<rparr> h"

subsection \<open>Projections of a history\<close>

text \<open>The identifiers of the stop calls of a history, and the intervals of its sleeps.\<close>

fun stops :: "call list \<Rightarrow> string list" where
  "stops [] = []"
| "stops (ContainerStop_call i t # h) = i # stops h"
| "stops (x # h) = stops h"

fun sleeps :: "call list \<Rightarrow> rat list" where
  "sleeps [] = []"
| "sleeps (Sleep d # h) = d # sleeps h"
| "sleeps (x # h) = sleeps h"

text \<open>
  The containers the dedup pass counts for a service, as the specification words it:
  those in state running, with a non-empty uuid label, whose service-name label is the
  service's identifier, in the order of the listing.
\<close>

definition spec_instances :: "string \<Rightarrow> types_Container list \<Rightarrow> types_Container list" where
  "spec_instances service containers =
     filter (\<lambda>c. State c = ''running''
                \<and> index (Container_Labels c) uuidLabel \<noteq> []
                \<and> index (Container_Labels c) serviceNameLabel = service) containers"

text \<open>
  The poll intervals as the specification words them: the first is one second, each
  further one is 1.5 times the one before, and none exceeds five minutes.
\<close>

definition spec_interval :: "nat \<Rightarrow> rat" where
  "spec_interval k = min (5 * Minute) (1 * Second * (3 / 2) ^ k)"

section \<open>The events package (events/entry.go)\<close>

definition simulatedEvent :: string where
  "simulatedEvent = ''-simulated-''"

text \<open>
  The objects \<open>Process\<close> only passes on (the network manager, the binary-exec watcher, the
  runtime client, the event router) are pointers in the source and addresses here.
\<close>

type_synonym network_Manager = nat
type_synonym binexec_Watcher = nat
type_synonym docker_Client = nat
type_synonym EventRouter = nat

text \<open>
  \<open>docker.APIContainers\<close> and \<open>docker.APIEvents\<close>, with the fields entry.go uses; both
  have a field \<open>ID\<close>, named \<open>APIContainers_ID\<close> and \<open>APIEvents_ID\<close> here.
\<close>

record docker_APIContainers =
  APIContainers_ID :: string

record docker_APIEvents =
  APIEvents_ID :: string
  Status :: string
  From :: string

text \<open>
  The values of the interface \<open>Handler\<close> that \<open>Process\<close> builds: the binary-exec
  watcher itself, \<open>&StartHandler{dockerClient}\<close> and \<open>&NetworkManagerHandler{de.nm}\<close>.
\<close>

datatype Handler =
    Watcher_Handler binexec_Watcher
  | StartHandler docker_Client
  | NetworkManagerHandler network_Manager

record DockerEventsProcessor =
  poolSize :: int
  nm :: network_Manager
  bw :: binexec_Watcher

text \<open>
  The calls of \<open>Process\<close>, in a history of their own.  \<open>listener_send\<close> is the channel
  send \<open>router.listener <- event\<close>.
\<close>

datatype events_call =
    NewDockerClient_call
  | NewEventRouter_call int int docker_Client "string \<rightharpoonup> Handler list"
  | Start_call EventRouter
  | ListContainers_call docker_Client bool
  | listener_send EventRouter docker_APIEvents

text \<open>
  \<open>NewDockerClient\<close> and \<open>NewEventRouter\<close> belong to the package but not to entry.go,
  and \<open>ListContainers\<close> to the runtime client; they are parameters, functions of the
  history and of their arguments.
\<close>

record events_env =
  NewDockerClient :: "events_call list \<Rightarrow> error + docker_Client"
  NewEventRouter ::
    "events_call list \<Rightarrow> int \<Rightarrow> int \<Rightarrow> docker_Client \<Rightarrow> (string \<rightharpoonup> Handler list)
       \<Rightarrow> error + EventRouter"
  ListContainers :: "events_call list \<Rightarrow> docker_Client \<Rightarrow> bool \<Rightarrow> error + docker_APIContainers list"

text \<open>The \<open>for _, c := range containers\<close> loop of \<open>Process\<close>.\<close>

fun replay_loop ::
  "EventRouter \<Rightarrow> docker_APIContainers list \<Rightarrow> events_call list \<Rightarrow> events_call list" where
  "replay_loop router [] h = h"
| "replay_loop router (c # rest) h =
     (let event = \<lparr>APIEvents_ID = APIContainers_ID c, Status = ''start'', From = simulatedEvent\<rparr>
      in replay_loop router rest (h @ [listener_send router event]))"

text \<open>\<open>func (de *DockerEventsProcessor) Process() error\<close>\<close>

definition Process ::
  "events_env \<Rightarrow> DockerEventsProcessor \<Rightarrow> events_call list \<Rightarrow> error option \<times> events_call list" where
  "Process env de h =
     (let h1 = h @ [NewDockerClient_call] in
      case NewDockerClient env h of
        Inl err \<Rightarrow> (Some err, h1)
      | Inr dockerClient \<Rightarrow>
          (let nmHandler = NetworkManagerHandler (nm de);
               handlers = [''start'' \<mapsto> [Watcher_Handler (bw de), StartHandler dockerClient, nmHandler],
                           ''die'' \<mapsto> [nmHandler]];
               h2 = h1 @ [NewEventRouter_call (poolSize de) (poolSize de) dockerClient handlers] in
           case NewEventRouter env h1 (poolSize de) (poolSize de) dockerClient handlers of
             Inl err \<Rightarrow> (Some err, h2)
           | Inr router \<Rightarrow>
               (let h3 = h2 @ [Start_call router];
                    h4 = h3 @ [ListContainers_call dockerClient True] in
                case ListContainers env h3 dockerClient True of
                  Inl err \<Rightarrow> (Some err, h4)
                | Inr containers \<Rightarrow> (None, replay_loop router containers h4))))"

text \<open>The events sent to the listener of a router, in a history.\<close>

fun sent :: "events_call list \<Rightarrow> (EventRouter \<times> docker_APIEvents) list" where
  "sent [] = []"
| "sent (listener_send r e # h) = (r, e) # sent h"
| "sent (x # h) = sent h"

section \<open>Scenarios\<close>

text \<open>
  Concrete collaborators, used to evaluate the definitions: a metadata client that
  answers with a fixed host and a fixed container list, and a runtime client with a fixed
  listing, a fixed answer to every inspect call and a fixed answer to every remove call.
\<close>

definition fixed_metadata :: "metadata_Host \<Rightarrow> metadata_Container list \<Rightarrow> metadata_Client" where
  "fixed_metadata host containers =
     \<lparr>GetSelfHost = (\<lambda>h. Inr host), GetContainers = (\<lambda>h. Inr containers)\<rparr>"

definition fixed_runtime ::
  "types_Container list \<Rightarrow> error + types_ContainerJSON \<Rightarrow> error option \<Rightarrow> client_Client" where
  "fixed_runtime listing inspected removed =
     \<lparr>ContainerList = (\<lambda>h a. Inr listing), ContainerStop = (\<lambda>h i t. None),
      ContainerInspect = (\<lambda>h i. inspected), ContainerRemove = (\<lambda>h i f. removed)\<rparr>"

definition host_H :: metadata_Host where
  "host_H = \<lparr>host_UUID = ''H''\<rparr>"

text \<open>A container of host \<open>H\<close> whose uuid label differs from its UUID (scenario A).\<close>

definition container_a1 :: metadata_Container where
  "container_a1 =
     \<lparr>UUID = ''a1'', ExternalId = ''d1'', HostUUID = ''H'', Name = ''web-1'',
      Labels = [uuidLabel \<mapsto> ''a2'']\<rparr>"

text \<open>A container of host \<open>H\<close> without a uuid label.\<close>

definition container_b1 :: metadata_Container where
  "container_b1 =
     \<lparr>UUID = ''b1'', ExternalId = ''d2'', HostUUID = ''H'', Name = ''db-1'',
      Labels = Map.empty\<rparr>"

text \<open>A second container of host \<open>H\<close> whose uuid label differs from its UUID.\<close>

definition container_a3 :: metadata_Container where
  "container_a3 =
     \<lparr>UUID = ''a3'', ExternalId = ''d3'', HostUUID = ''H'', Name = ''web-3'',
      Labels = [uuidLabel \<mapsto> ''a4'']\<rparr>"

text \<open>Watchers for the scenarios: the runtime names the inspected container \<open>/web-1\<close>
  (scenario A) or \<open>/rancher-agent\<close> (scenario B), or fails.\<close>

definition watcher_A :: watcher where
  "watcher_A =
     \<lparr>w_dc = fixed_runtime [] (Inr \<lparr>ContainerJSON_Name = ''/web-1''\<rparr>) None,
      w_c = fixed_metadata host_H [container_b1, container_a1]\<rparr>"

definition watcher_B :: watcher where
  "watcher_B =
     \<lparr>w_dc = fixed_runtime [] (Inr \<lparr>ContainerJSON_Name = ''/rancher-agent''\<rparr>) None,
      w_c = fixed_metadata host_H [container_a1]\<rparr>"

definition watcher_inspect_fails :: watcher where
  "watcher_inspect_fails =
     \<lparr>w_dc = fixed_runtime [] (Inl ''no such container'') None,
      w_c = fixed_metadata host_H [container_a1, container_a3]\<rparr>"

definition watcher_remove_fails :: watcher where
  "watcher_remove_fails =
     \<lparr>w_dc = fixed_runtime [] (Inr \<lparr>ContainerJSON_Name = ''/web-1''\<rparr>) (Some ''busy''),
      w_c = fixed_metadata host_H [container_a1, container_a3]\<rparr>"

definition watcher_unlabelled :: watcher where
  "watcher_unlabelled =
     \<lparr>w_dc = fixed_runtime [] (Inr \<lparr>ContainerJSON_Name = ''/web-1''\<rparr>) None,
      w_c = fixed_metadata host_H [container_b1]\<rparr>"

definition watcher_no_host :: watcher where
  "watcher_no_host =
     \<lparr>w_dc = fixed_runtime [] (Inr \<lparr>ContainerJSON_Name = ''/web-1''\<rparr>) None,
      w_c = \<lparr>GetSelfHost = (\<lambda>h. Inl ''timeout''), GetContainers = (\<lambda>h. Inr [container_a1])\<rparr>\<rparr>"

definition watcher_no_containers :: watcher where
  "watcher_no_containers =
     \<lparr>w_dc = fixed_runtime [] (Inr \<lparr>ContainerJSON_Name = ''/web-1''\<rparr>) None,
      w_c = \<lparr>GetSelfHost = (\<lambda>h. Inr host_H), GetContainers = (\<lambda>h. Inl ''timeout'')\<rparr>\<rparr>"

text \<open>A running instance of the metadata service (scenario C lists three of them).\<close>

definition metadata_instance :: "string \<Rightarrow> types_Container" where
  "metadata_instance i =
     \<lparr>ID = i, State = ''running'',
      Container_Labels = [uuidLabel \<mapsto> ''u'', serviceNameLabel \<mapsto> metadataService]\<rparr>"

definition runtime_C :: client_Client where
  "runtime_C =
     fixed_runtime [metadata_instance ''m3'', metadata_instance ''m2'', metadata_instance ''m1'']
       (Inl ''unused'') None"

text \<open>Scenario D: the runtime lists two containers at startup.\<close>

definition env_D :: events_env where
  "env_D =
     \<lparr>NewDockerClient = (\<lambda>h. Inr 1), NewEventRouter = (\<lambda>h p q d t. Inr 2),
      ListContainers = (\<lambda>h d a. Inr [\<lparr>APIContainers_ID = ''c1''\<rparr>, \<lparr>APIContainers_ID = ''c2''\<rparr>])\<rparr>"

definition processor_D :: DockerEventsProcessor where
  "processor_D = \<lparr>poolSize = 10, nm = 3, bw = 4\<rparr>"

section \<open>Properties of the reaper\<close>

subsection \<open>Auxiliary facts\<close>

lemma stops_append: "stops (a @ b) = stops a @ stops b"
  by (induction a rule: stops.induct) simp_all

lemma sleeps_append: "sleeps (a @ b) = sleeps a @ sleeps b"
  by (induction a rule: sleeps.induct) simp_all

lemma collectIds_filter:
  "collectIds cs m d =
     (m @ map ID (spec_instances metadataService cs), d @ map ID (spec_instances dnsService cs))"
  by (induction cs arbitrary: m d) (simp_all add: spec_instances_def Let_def)

lemma nth_length_minus_1: "Suc 0 < length xs \<Longrightarrow> xs ! (length xs - Suc 0) = last xs"
  by (cases xs) (simp_all add: last_conv_nth)

lemma last_map_nonempty: "Suc 0 < length xs \<Longrightarrow> last (map f xs) = f (last xs)"
  by (cases xs) (simp_all add: last_map)

lemma selectToStop_last:
  "selectToStop m d = (if length m > 1 then [last m] else []) @ (if length d > 1 then [last d] else [])"
  by (simp add: selectToStop_def Let_def nth_length_minus_1)

lemma stopLoop_stops: "stops (stopLoop dc ids h) = stops h @ ids"
  by (induction ids arbitrary: h) (simp_all add: Let_def stops_append split: option.split)

lemma stopLoop_sleeps: "sleeps (stopLoop dc ids h) = sleeps h"
  by (induction ids arbitrary: h) (simp_all add: Let_def sleeps_append split: option.split)

lemma stopLoop_extends:
  "\<exists>t. stopLoop dc ids h = h @ t \<and> (\<forall>i d. ContainerStop_call i d \<in> set t \<longrightarrow> d = Some 0)"
proof (induction ids arbitrary: h)
  case Nil
  show ?case by simp
next
  case (Cons a ids)
  show ?case
  proof (cases "ContainerStop dc (h @ [Infof ''reaper:  Stopping duplicate metadata/dns service: %s'' [a]]) a (Some 0)")
    case None
    obtain t where "stopLoop dc ids (h @ [Infof ''reaper:  Stopping duplicate metadata/dns service: %s'' [a], ContainerStop_call a (Some 0)]) = (h @ [Infof ''reaper:  Stopping duplicate metadata/dns service: %s'' [a], ContainerStop_call a (Some 0)]) @ t \<and> (\<forall>i d. ContainerStop_call i d \<in> set t \<longrightarrow> d = Some 0)"
      using Cons.IH by blast
    with None show ?thesis by (auto simp add: Let_def)
  next
    case (Some e)
    obtain t where "stopLoop dc ids (h @ [Infof ''reaper:  Stopping duplicate metadata/dns service: %s'' [a], ContainerStop_call a (Some 0), Errorf ''reaper:  Failed to stop duplicate metadata/dns service: %s'' [a]]) = (h @ [Infof ''reaper:  Stopping duplicate metadata/dns service: %s'' [a], ContainerStop_call a (Some 0), Errorf ''reaper:  Failed to stop duplicate metadata/dns service: %s'' [a]]) @ t \<and> (\<forall>i d. ContainerStop_call i d \<in> set t \<longrightarrow> d = Some 0)"
      using Cons.IH by blast
    with Some show ?thesis by (auto simp add: Let_def)
  qed
qed

lemma CheckMetadata_extends:
  "\<exists>t. snd (CheckMetadata dc h) = h @ t \<and> (\<forall>i d. ContainerStop_call i d \<in> set t \<longrightarrow> d = Some 0)"
proof (cases "ContainerList dc h True")
  case (Inl e)
  then show ?thesis by (simp add: CheckMetadata_def)
next
  case (Inr cs)
  obtain t where t: "stopLoop dc (selectToStop (fst (collectIds cs [] [])) (snd (collectIds cs [] [])))
        (h @ [ContainerList_call True]) = (h @ [ContainerList_call True]) @ t"
      "\<forall>i d. ContainerStop_call i d \<in> set t \<longrightarrow> d = Some 0"
    using stopLoop_extends by blast
  with Inr show ?thesis
    by (simp add: CheckMetadata_def Let_def split_beta)
qed

lemma CheckMetadata_sleeps: "sleeps (snd (CheckMetadata dc h)) = sleeps h"
  by (simp add: CheckMetadata_def Let_def split_beta sleeps_append stopLoop_sleeps split: sum.split)

lemma watchMetadata_loop_sleeps:
  "sleeps (watchMetadata_loop n dc b h) =
     sleeps h @ map (\<lambda>k. min (Backoff_Max b) (Backoff_Min b * Factor b ^ (attempt b + k))) [0..<n]"
proof (induction n arbitrary: b h)
  case 0
  show ?case by simp
next
  case (Suc n)
  obtain err h1 where c: "CheckMetadata dc h = (err, h1)" by force
  have h1: "sleeps h1 = sleeps h" using CheckMetadata_sleeps [of dc h] c by simp
  define h2 where "h2 = (case err of
                       Some e \<Rightarrow> h1 @ [Errorf ''reaper: Failed to check for bad metadata: %v'' [e]]
                     | None \<Rightarrow> h1)"
  have h2: "sleeps h2 = sleeps h" using h1 by (simp add: h2_def sleeps_append split: option.split)
  have "watchMetadata_loop (Suc n) dc b h =
      watchMetadata_loop n dc (b\<lparr>attempt := attempt b + 1\<rparr>)
        (h2 @ [Sleep (min (Backoff_Max b) (Backoff_Min b * Factor b ^ attempt b))])"
    using c by (simp add: Duration_def h2_def)
  then show ?case
    by (simp add: Suc.IH sleeps_append h2 upt_rec [of 0 "Suc n"] map_Suc_upt [symmetric] del: upt_Suc)
qed

lemma spec_interval_mono: "spec_interval k \<le> spec_interval (Suc k)"
proof -
  have "(0::rat) \<le> (3 / 2) ^ k" by simp
  then have "(3 / 2 :: rat) ^ k \<le> (3 / 2) ^ k * (3 / 2)" by simp
  then show ?thesis
    by (simp add: spec_interval_def Second_def min_le_iff_disj)
qed

lemma spec_interval_step: "spec_interval (Suc k) = min (5 * Minute) (3 / 2 * spec_interval k)"
  by (simp add: spec_interval_def Second_def Minute_def min_def)

lemma spec_interval_le: "spec_interval k \<le> 5 * Minute"
  by (simp add: spec_interval_def)

lemma spec_interval_mono_add: "spec_interval k \<le> spec_interval (k + j)"
proof (induction j)
  case 0
  show ?case by simp
next
  case (Suc j)
  then show ?case using spec_interval_mono [of "k + j"] by simp
qed

lemma spec_interval_ceiling: "spec_interval 14 < 5 * Minute" "spec_interval 15 = 5 * Minute"
  by (simp_all add: spec_interval_def Second_def Minute_def power_divide)

lemma onChange_loop_append:
  "onChange_loop w host (xs @ ys) h = onChange_loop w host ys (onChange_loop w host xs h)"
  by (induction xs arbitrary: h) (simp_all split: option.split)

lemma removeContainer_calls:
  "\<exists>t. removeContainer w c h = h @ t
     \<and> (\<forall>x \<in> set t. (\<forall>i. x = ContainerInspect_call i \<longrightarrow> i = ExternalId c)
                    \<and> (\<forall>i f. x = ContainerRemove_call i f \<longrightarrow> i = ExternalId c))"
  by (simp add: removeContainer_def Let_def split: sum.split option.split)

lemma onChange_loop_calls:
  "\<exists>t. onChange_loop w host cs h = h @ t
     \<and> (\<forall>x \<in> set t. (\<forall>i. x = ContainerInspect_call i \<longrightarrow> i \<in> ExternalId ` set cs)
                    \<and> (\<forall>i f. x = ContainerRemove_call i f \<longrightarrow> i \<in> ExternalId ` set cs))"
proof (induction cs arbitrary: h)
  case Nil
  show ?case by simp
next
  case (Cons c cs)
  let ?P = "\<lambda>S t. \<forall>x \<in> set t. (\<forall>i. x = ContainerInspect_call i \<longrightarrow> i \<in> S)
                    \<and> (\<forall>i f. x = ContainerRemove_call i f \<longrightarrow> i \<in> S)"
  obtain t1 where t1: "onChange_loop w host cs h = h @ t1" "?P (ExternalId ` set cs) t1"
    using Cons.IH [of h] by blast
  obtain r where r: "removeContainer w c h = h @ r" "?P {ExternalId c} r"
    using removeContainer_calls [of w c h] by auto
  obtain t2 where t2: "onChange_loop w host cs (h @ r) = (h @ r) @ t2" "?P (ExternalId ` set cs) t2"
    using Cons.IH [of "h @ r"] by blast
  have a: "?P (ExternalId ` set (c # cs)) t1" using t1(2) by auto
  have b: "?P (ExternalId ` set (c # cs)) (r @ t2)" using r(2) t2(2) by auto
  have "onChange_loop w host (c # cs) h = h @ t1 \<or> onChange_loop w host (c # cs) h = h @ (r @ t2)"
    using t1(1) r(1) t2(1) by (simp split: option.split)
  then show ?case using a b by blast
qed

lemma removeContainer_attempt:
  "\<exists>r. removeContainer w C h0 = h0 @ ContainerInspect_call (ExternalId C) # r
     \<and> (\<forall>j. ContainerInspect (w_dc w) h0 (ExternalId C) = Inr j
              \<and> ContainerJSON_Name j \<noteq> ''/rancher-agent'' \<longrightarrow>
            (\<exists>t'. r = Infof ''reaper:  Removing unmanaged container %s %s'' [Name C, ExternalId C]
                       # ContainerRemove_call (ExternalId C) True # t'))"
  by (simp add: removeContainer_def Let_def split: sum.split option.split)

lemma onChange_loop_extends: "\<exists>t. onChange_loop w host cs h = h @ t"
  using onChange_loop_calls [of w host cs h] by blast

lemma onChange_loop_orphan:
  assumes "HostUUID C = host_UUID host" and "Labels C uuidLabel = Some u" and "u \<noteq> UUID C"
  shows "onChange_loop w host (pre @ C # post) h =
           onChange_loop w host post (removeContainer w C (onChange_loop w host pre h))"
  using assms by (auto simp add: onChange_loop_append)

lemma onChange_loop_inspects:
  assumes "C \<in> set cs" and "HostUUID C = host_UUID host"
    and "Labels C uuidLabel = Some u" and "u \<noteq> UUID C"
  shows "\<exists>p t. onChange_loop w host cs h = (h @ p) @ ContainerInspect_call (ExternalId C) # t
     \<and> (\<forall>j. ContainerInspect (w_dc w) (h @ p) (ExternalId C) = Inr j
              \<and> ContainerJSON_Name j \<noteq> ''/rancher-agent'' \<longrightarrow>
            (\<exists>t'. t = Infof ''reaper:  Removing unmanaged container %s %s'' [Name C, ExternalId C]
                       # ContainerRemove_call (ExternalId C) True # t'))"
proof -
  obtain pre post where cs: "cs = pre @ C # post"
    using assms(1) by (meson split_list)
  obtain p where p: "onChange_loop w host pre h = h @ p"
    using onChange_loop_extends by blast
  obtain r where r: "removeContainer w C (h @ p) = (h @ p) @ ContainerInspect_call (ExternalId C) # r"
    "\<forall>j. ContainerInspect (w_dc w) (h @ p) (ExternalId C) = Inr j
              \<and> ContainerJSON_Name j \<noteq> ''/rancher-agent'' \<longrightarrow>
            (\<exists>t'. r = Infof ''reaper:  Removing unmanaged container %s %s'' [Name C, ExternalId C]
                       # ContainerRemove_call (ExternalId C) True # t')"
    using removeContainer_attempt [of w C "h @ p"] by auto
  obtain q where q: "onChange_loop w host post (removeContainer w C (h @ p))
                       = removeContainer w C (h @ p) @ q"
    using onChange_loop_extends by blast
  have e: "onChange_loop w host cs h = (h @ p) @ ContainerInspect_call (ExternalId C) # (r @ q)"
    using onChange_loop_orphan [OF assms(2,3,4), of w pre post h] cs p q r(1) by simp
  have "\<forall>j. ContainerInspect (w_dc w) (h @ p) (ExternalId C) = Inr j
              \<and> ContainerJSON_Name j \<noteq> ''/rancher-agent'' \<longrightarrow>
            (\<exists>t'. r @ q = Infof ''reaper:  Removing unmanaged container %s %s'' [Name C, ExternalId C]
                       # ContainerRemove_call (ExternalId C) True # t')"
    using r(2) by auto
  with e show ?thesis by blast
qed

lemma onChange_loop_inspect_mem:
  assumes "D \<in> set cs" and "HostUUID D = host_UUID host"
    and "Labels D uuidLabel = Some v" and "v \<noteq> UUID D"
  shows "ContainerInspect_call (ExternalId D) \<in> set (drop (length h') (onChange_loop w host cs h'))"
proof -
  obtain p t where "onChange_loop w host cs h' = (h' @ p) @ ContainerInspect_call (ExternalId D) # t"
    using onChange_loop_inspects [OF assms, of w h'] by auto
  then show ?thesis by simp
qed

lemma replay_loop_eq:
  "replay_loop router cs h =
     h @ map (\<lambda>c. listener_send router
                     \<lparr>APIEvents_ID = APIContainers_ID c, Status = ''start'', From = simulatedEvent\<rparr>) cs"
  by (induction cs arbitrary: h) simp_all

lemma sent_append: "sent (a @ b) = sent a @ sent b"
  by (induction a rule: sent.induct) simp_all

subsection \<open>Duplicate singleton services\<close>

text \<open>
  Claim C3.  In a detection pass whose listing succeeds, let S be the containers of the
  listing that are running, carry a non-empty uuid label and have a given well-known
  service name, in list order.  The stop calls of the pass are: one for the last element
  of S for the metadata service when that S has more than one element and none for that
  service otherwise, followed by the same for the DNS service.  The pass returns no error.
\<close>

theorem CheckMetadata_stops_oldest_duplicate:
  assumes "ContainerList dockerClient h True = Inr containers"
  shows "fst (CheckMetadata dockerClient h) = None
     \<and> stops (snd (CheckMetadata dockerClient h)) =
         stops h
         @ (if length (spec_instances metadataService containers) > 1
            then [ID (last (spec_instances metadataService containers))] else [])
         @ (if length (spec_instances dnsService containers) > 1
            then [ID (last (spec_instances dnsService containers))] else [])"
  using assms
  by (simp add: CheckMetadata_def Let_def collectIds_filter selectToStop_last stopLoop_stops
        stops_append last_map_nonempty)


theorem CheckMetadata_stops_oldest_duplicate_witness:
  "ContainerList runtime_C [] True
     = Inr [metadata_instance ''m3'', metadata_instance ''m2'', metadata_instance ''m1'']
   \<and> stops (snd (CheckMetadata runtime_C [])) = [''m1'']"
  using CheckMetadata_stops_oldest_duplicate [of runtime_C "[]" "[metadata_instance ''m3'', metadata_instance ''m2'', metadata_instance ''m1'']"]
  by (simp add: runtime_C_def fixed_runtime_def metadata_instance_def index_def spec_instances_def 
     uuidLabel_def serviceNameLabel_def metadataService_def dnsService_def)

text \<open>
  Claim C10.  Every stop call a detection pass adds to the history carries the timeout
  zero.
\<close>

theorem CheckMetadata_stop_zero_grace:
  "ContainerStop_call i d \<in> set (drop (length h) (snd (CheckMetadata dockerClient h))) \<Longrightarrow> d = Some 0"
proof -
  assume a: "ContainerStop_call i d \<in> set (drop (length h) (snd (CheckMetadata dockerClient h)))"
  obtain t where t: "snd (CheckMetadata dockerClient h) = h @ t"
      "\<forall>i d. ContainerStop_call i d \<in> set t \<longrightarrow> d = Some 0"
    using CheckMetadata_extends by blast
  from a t(1) have "ContainerStop_call i d \<in> set t" by simp
  with t(2) show ?thesis by blast
qed

theorem CheckMetadata_stop_zero_grace_witness:
  "ContainerStop_call ''m1'' (Some 0) \<in> set (drop (length []) (snd (CheckMetadata runtime_C [])))
   \<and> Some (0 :: rat) = Some 0"
  using CheckMetadata_stop_zero_grace [of "''m1''" "Some 0" "[]" runtime_C]
  by (simp add: CheckMetadata_def runtime_C_def fixed_runtime_def metadata_instance_def Let_def index_def selectToStop_def
     uuidLabel_def serviceNameLabel_def metadataService_def dnsService_def)

subsection \<open>The poll intervals\<close>

text \<open>
  Claim C4.  After \<open>n\<close> ticks of \<open>watchMetadata\<close> the sleeps are the first \<open>n\<close>
  poll intervals, whatever the runtime answers (so whether or not a detection pass
  fails).  The intervals begin at one second, never decrease, each is 1.5 times the one
  before clamped at five minutes, none exceeds five minutes, and an interval of five
  minutes is followed by intervals of five minutes only; the ceiling is reached at the
  sixteenth sleep.
\<close>

theorem watchMetadata_intervals:
  "sleeps (watchMetadata n dockerClient h) = sleeps h @ map spec_interval [0..<n]
   \<and> spec_interval 0 = 1 * Second
   \<and> spec_interval k \<le> spec_interval (Suc k)
   \<and> spec_interval (Suc k) = min (5 * Minute) (3 / 2 * spec_interval k)
   \<and> spec_interval k \<le> 5 * Minute
   \<and> (spec_interval k = 5 * Minute \<longrightarrow> spec_interval (k + j) = 5 * Minute)
   \<and> spec_interval 14 < 5 * Minute
   \<and> spec_interval 15 = 5 * Minute"
proof -
  have 1: "sleeps (watchMetadata n dockerClient h) = sleeps h @ map spec_interval [0..<n]"
    by (simp add: watchMetadata_def watchMetadata_loop_sleeps spec_interval_def)
  have 2: "spec_interval 0 = 1 * Second"
    by (simp add: spec_interval_def Second_def Minute_def)
  have 3: "spec_interval k = 5 * Minute \<longrightarrow> spec_interval (k + j) = 5 * Minute"
    using spec_interval_mono_add [of k j] spec_interval_le [of "k + j"] by simp
  show ?thesis
    using 1 2 3 spec_interval_mono spec_interval_step spec_interval_le spec_interval_ceiling
    by blast
qed

theorem watchMetadata_intervals_witness:
  "spec_interval 15 = 5 * Minute \<and> spec_interval (15 + 2) = 5 * Minute
   \<and> sleeps (watchMetadata 3 runtime_C []) = [1000000000, 1500000000, 2250000000]"
  using watchMetadata_intervals [of 3 runtime_C "[]" 15 2]
  by (simp add: spec_interval_def Second_def Minute_def power_divide numeral_3_eq_3)


subsection \<open>The reserved agent container\<close>

text \<open>
  Claim C6.  When the inspect call of \<open>removeContainer\<close> answers with the reserved name
  \<open>/rancher-agent\<close>, the only call made is that inspect call: no removal call is issued
  (and nothing is logged), whatever the labels of the container are.
\<close>

theorem removeContainer_agent_not_removed:
  assumes "ContainerInspect (w_dc w) h (ExternalId container) = Inr c"
    and "ContainerJSON_Name c = ''/rancher-agent''"
  shows "removeContainer w container h = h @ [ContainerInspect_call (ExternalId container)]
         \<and> (\<forall>x \<in> set (drop (length h) (removeContainer w container h)).
               \<forall>i f. x \<noteq> ContainerRemove_call i f)"
  using assms by (simp add: removeContainer_def)

theorem removeContainer_agent_not_removed_witness:
  "ContainerInspect (w_dc watcher_B) [] (ExternalId container_a1)
     = Inr \<lparr>ContainerJSON_Name = ''/rancher-agent''\<rparr>
   \<and> ContainerJSON_Name \<lparr>ContainerJSON_Name = ''/rancher-agent''\<rparr> = ''/rancher-agent''
   \<and> removeContainer watcher_B container_a1 [] = [ContainerInspect_call ''d1'']"
  using removeContainer_agent_not_removed
    [of watcher_B "[]" container_a1 "\<lparr>ContainerJSON_Name = ''/rancher-agent''\<rparr>"]
  by (simp add: watcher_B_def fixed_runtime_def container_a1_def)

subsection \<open>Orphans\<close>

text \<open>
  Claim C1, as amended.  In a pass in which both fetches succeed, every fetched container
  \<open>C\<close> of the self host whose uuid label is present and differs from \<open>C.UUID\<close> is
  treated as an orphan: after the two fetches the pass issues an inspect call for
  \<open>C.ExternalId\<close>, and when that call answers with a name other than the reserved one,
  the next calls are the log line and the forced removal of \<open>C.ExternalId\<close>.  The pass
  returns no error.
\<close>

theorem onChange_removes_mismatched:
  assumes "GetSelfHost (w_c w) h = Inr host"
    and "GetContainers (w_c w) (h @ [GetSelfHost_call]) = Inr containers"
    and "C \<in> set containers"
    and "HostUUID C = host_UUID host"
    and "Labels C uuidLabel = Some u"
    and "u \<noteq> UUID C"
  shows "fst (onChange w version h) = None
     \<and> (\<exists>p t. snd (onChange w version h)
                = (h @ [GetSelfHost_call, GetContainers_call] @ p)
                  @ ContainerInspect_call (ExternalId C) # t
          \<and> (\<forall>j. ContainerInspect (w_dc w) (h @ [GetSelfHost_call, GetContainers_call] @ p)
                     (ExternalId C) = Inr j
                   \<and> ContainerJSON_Name j \<noteq> ''/rancher-agent'' \<longrightarrow>
                 (\<exists>t'. t = Infof ''reaper:  Removing unmanaged container %s %s''
                                [Name C, ExternalId C]
                            # ContainerRemove_call (ExternalId C) True # t')))"
proof -
  have o: "onChange w version h =
      (None, onChange_loop w host containers (h @ [GetSelfHost_call, GetContainers_call]))"
    using assms(1,2) by (simp add: onChange_def)
  show ?thesis
    using onChange_loop_inspects [OF assms(3,4,5,6), of w "h @ [GetSelfHost_call, GetContainers_call]"] o
    by simp
qed

theorem onChange_removes_mismatched_witness:
  "GetSelfHost (w_c watcher_A) [] = Inr host_H
   \<and> GetContainers (w_c watcher_A) ([] @ [GetSelfHost_call]) = Inr [container_b1, container_a1]
   \<and> container_a1 \<in> set [container_b1, container_a1]
   \<and> HostUUID container_a1 = host_UUID host_H
   \<and> Labels container_a1 uuidLabel = Some ''a2''
   \<and> ''a2'' \<noteq> UUID container_a1
   \<and> onChange watcher_A ''1'' [] =
       (None, [GetSelfHost_call, GetContainers_call, ContainerInspect_call ''d1'',
               Infof ''reaper:  Removing unmanaged container %s %s'' [''web-1'', ''d1''],
               ContainerRemove_call ''d1'' True])"
  using onChange_removes_mismatched [of watcher_A "[]" host_H "[container_b1, container_a1]" container_a1 "''a2''" "''1''"]
  by (simp add: onChange_def removeContainer_def watcher_A_def fixed_metadata_def fixed_runtime_def
        container_a1_def container_b1_def host_H_def)

text \<open>
  Claim C1 as stated fails for an absent label: a container of the self host without a
  uuid label is not inspected, the pass consists of the two fetches only.
\<close>

theorem onChange_absent_label_counterexample:
  "GetSelfHost (w_c watcher_unlabelled) [] = Inr host_H
   \<and> GetContainers (w_c watcher_unlabelled) [GetSelfHost_call] = Inr [container_b1]
   \<and> HostUUID container_b1 = host_UUID host_H
   \<and> Labels container_b1 uuidLabel = None
   \<and> onChange watcher_unlabelled ''1'' [] = (None, [GetSelfHost_call, GetContainers_call])
   \<and> ContainerInspect_call (ExternalId container_b1) \<notin> set (snd (onChange watcher_unlabelled ''1'' []))"
  by (simp add: onChange_def watcher_unlabelled_def fixed_metadata_def container_b1_def host_H_def)

text \<open>
  Claim C2.  A fetched container without a uuid label is skipped: the pass is the pass
  over the list without it, whether or not it belongs to the self host; and when no other
  fetched container has its \<open>ExternalId\<close>, the pass issues no inspect call and no
  removal call for that identifier.
\<close>

theorem onChange_skips_unlabelled:
  assumes "GetSelfHost (w_c w) h = Inr host"
    and "GetContainers (w_c w) (h @ [GetSelfHost_call]) = Inr (pre @ C # post)"
    and "Labels C uuidLabel = None"
  shows "onChange w version h =
           (None, onChange_loop w host (pre @ post) (h @ [GetSelfHost_call, GetContainers_call]))
         \<and> ((\<forall>c \<in> set (pre @ post). ExternalId c \<noteq> ExternalId C) \<longrightarrow>
              (\<forall>x \<in> set (drop (length h) (snd (onChange w version h))).
                 x \<noteq> ContainerInspect_call (ExternalId C)
                 \<and> (\<forall>f. x \<noteq> ContainerRemove_call (ExternalId C) f)))"
proof -
  let ?h2 = "h @ [GetSelfHost_call, GetContainers_call]"
  have skip: "onChange_loop w host (pre @ C # post) ?h2 = onChange_loop w host (pre @ post) ?h2"
    using assms(3) by (simp add: onChange_loop_append)
  have 1: "onChange w version h = (None, onChange_loop w host (pre @ post) ?h2)"
    using assms(1,2) skip by (simp add: onChange_def)
  obtain t where t: "onChange_loop w host (pre @ post) ?h2 = ?h2 @ t"
      "\<forall>x \<in> set t. (\<forall>i. x = ContainerInspect_call i \<longrightarrow> i \<in> ExternalId ` set (pre @ post))
                    \<and> (\<forall>i f. x = ContainerRemove_call i f \<longrightarrow> i \<in> ExternalId ` set (pre @ post))"
    using onChange_loop_calls [of w host "pre @ post" ?h2] by blast
  have d: "drop (length h) (snd (onChange w version h)) = [GetSelfHost_call, GetContainers_call] @ t"
    using 1 t(1) by simp
  have 2: "(\<forall>c \<in> set (pre @ post). ExternalId c \<noteq> ExternalId C) \<longrightarrow>
              (\<forall>x \<in> set (drop (length h) (snd (onChange w version h))).
                 x \<noteq> ContainerInspect_call (ExternalId C)
                 \<and> (\<forall>f. x \<noteq> ContainerRemove_call (ExternalId C) f))"
    unfolding d using t(2) by (fastforce simp add: image_iff)
  show ?thesis using 1 2 by blast
qed

theorem onChange_skips_unlabelled_witness:
  "GetSelfHost (w_c watcher_A) [] = Inr host_H
   \<and> GetContainers (w_c watcher_A) ([] @ [GetSelfHost_call]) = Inr ([] @ container_b1 # [container_a1])
   \<and> Labels container_b1 uuidLabel = None
   \<and> HostUUID container_b1 = host_UUID host_H
   \<and> ExternalId container_a1 \<noteq> ExternalId container_b1
   \<and> onChange watcher_A ''1'' [] =
       (None, [GetSelfHost_call, GetContainers_call, ContainerInspect_call ''d1'',
               Infof ''reaper:  Removing unmanaged container %s %s'' [''web-1'', ''d1''],
               ContainerRemove_call ''d1'' True])
   \<and> ContainerInspect_call (ExternalId container_b1)
        \<notin> set (drop (length []) (snd (onChange watcher_A ''1'' [])))
   \<and> ContainerRemove_call (ExternalId container_b1) True
        \<notin> set (drop (length []) (snd (onChange watcher_A ''1'' [])))"
  using onChange_skips_unlabelled [of watcher_A "[]" host_H "[]" container_b1 "[container_a1]" "''1''"]
  by (simp add: onChange_def removeContainer_def watcher_A_def fixed_metadata_def fixed_runtime_def
        container_a1_def container_b1_def host_H_def)

subsection \<open>Failures\<close>

text \<open>
  Claim C7.  When fetching the self host fails, \<open>onChange\<close> returns that error after
  that one call; when fetching the containers fails, it returns that error after the two
  fetches.  In both cases no inspect or removal call is made, and \<open>onChangeNoError\<close>
  adds one log line and nothing else (no further fetch).
\<close>

theorem onChange_fetch_failure_aborts:
  "(GetSelfHost (w_c w) h = Inl e \<longrightarrow>
      onChange w version h = (Some e, h @ [GetSelfHost_call])
      \<and> onChangeNoError w version h =
          h @ [GetSelfHost_call, Errorf ''reaper: Failed to watch for orphan containers: %v'' [e]])
   \<and> (GetSelfHost (w_c w) h = Inr host \<and> GetContainers (w_c w) (h @ [GetSelfHost_call]) = Inl e \<longrightarrow>
      onChange w version h = (Some e, h @ [GetSelfHost_call, GetContainers_call])
      \<and> onChangeNoError w version h =
          h @ [GetSelfHost_call, GetContainers_call,
               Errorf ''reaper: Failed to watch for orphan containers: %v'' [e]])"
  by (simp add: onChange_def onChangeNoError_def)

theorem onChange_fetch_failure_aborts_witness:
  "GetSelfHost (w_c watcher_no_host) [] = Inl ''timeout''
   \<and> onChangeNoError watcher_no_host ''1'' [] =
       [GetSelfHost_call, Errorf ''reaper: Failed to watch for orphan containers: %v'' [''timeout'']]
   \<and> GetSelfHost (w_c watcher_no_containers) [] = Inr host_H
   \<and> GetContainers (w_c watcher_no_containers) ([] @ [GetSelfHost_call]) = Inl ''timeout''
   \<and> onChangeNoError watcher_no_containers ''1'' [] =
       [GetSelfHost_call, GetContainers_call,
        Errorf ''reaper: Failed to watch for orphan containers: %v'' [''timeout'']]"
  using onChange_fetch_failure_aborts [of watcher_no_host "[]" "''timeout''" "''1''" host_H]
    onChange_fetch_failure_aborts [of watcher_no_containers "[]" "''timeout''" "''1''" host_H]
  by (simp add: watcher_no_host_def watcher_no_containers_def)


text \<open>
  Claim C8.  Let \<open>C\<close> be an orphan of a pass whose fetches succeed, and \<open>h0\<close> the history
  when its turn comes.  When its inspect call fails, the failure is logged, no removal call
  is made for it, and the loop goes on with the containers after \<open>C\<close>; when its removal
  call fails, the failure is logged and the loop goes on likewise.  In both cases the pass
  returns no error, and whatever the history is, the loop over the remaining containers
  inspects every orphan among them.
\<close>

theorem onChange_item_failures_isolated:
  assumes "GetSelfHost (w_c w) h = Inr host"
    and "GetContainers (w_c w) (h @ [GetSelfHost_call]) = Inr (pre @ C # post)"
    and "HostUUID C = host_UUID host"
    and "Labels C uuidLabel = Some u"
    and "u \<noteq> UUID C"
    and "h0 = onChange_loop w host pre (h @ [GetSelfHost_call, GetContainers_call])"
  shows "(\<forall>e. ContainerInspect (w_dc w) h0 (ExternalId C) = Inl e \<longrightarrow>
            onChange w version h =
              (None, onChange_loop w host post
                       (h0 @ [ContainerInspect_call (ExternalId C),
                              Errorf ''reaper: Inspect failed: %v'' [e]])))
     \<and> (\<forall>j e. ContainerInspect (w_dc w) h0 (ExternalId C) = Inr j
               \<and> ContainerJSON_Name j \<noteq> ''/rancher-agent''
               \<and> ContainerRemove (w_dc w)
                    (h0 @ [ContainerInspect_call (ExternalId C),
                           Infof ''reaper:  Removing unmanaged container %s %s''
                             [Name C, ExternalId C]])
                    (ExternalId C) True = Some e \<longrightarrow>
            onChange w version h =
              (None, onChange_loop w host post
                       (h0 @ [ContainerInspect_call (ExternalId C),
                              Infof ''reaper:  Removing unmanaged container %s %s''
                                [Name C, ExternalId C],
                              ContainerRemove_call (ExternalId C) True,
                              Errorf ''reaper: Removed failed: %v'' [e]])))
     \<and> (\<forall>h' D v. D \<in> set post \<and> HostUUID D = host_UUID host
               \<and> Labels D uuidLabel = Some v \<and> v \<noteq> UUID D \<longrightarrow>
            ContainerInspect_call (ExternalId D)
              \<in> set (drop (length h') (onChange_loop w host post h')))"
proof -
  have o: "onChange w version h = (None, onChange_loop w host post (removeContainer w C h0))"
    using assms(1,2,6) onChange_loop_orphan [OF assms(3,4,5)] by (simp add: onChange_def)
  have 1: "\<forall>e. ContainerInspect (w_dc w) h0 (ExternalId C) = Inl e \<longrightarrow>
            onChange w version h =
              (None, onChange_loop w host post
                       (h0 @ [ContainerInspect_call (ExternalId C),
                              Errorf ''reaper: Inspect failed: %v'' [e]]))"
    by (simp add: o removeContainer_def)
  have 2: "\<forall>j e. ContainerInspect (w_dc w) h0 (ExternalId C) = Inr j
               \<and> ContainerJSON_Name j \<noteq> ''/rancher-agent''
               \<and> ContainerRemove (w_dc w)
                    (h0 @ [ContainerInspect_call (ExternalId C),
                           Infof ''reaper:  Removing unmanaged container %s %s''
                             [Name C, ExternalId C]])
                    (ExternalId C) True = Some e \<longrightarrow>
            onChange w version h =
              (None, onChange_loop w host post
                       (h0 @ [ContainerInspect_call (ExternalId C),
                              Infof ''reaper:  Removing unmanaged container %s %s''
                                [Name C, ExternalId C],
                              ContainerRemove_call (ExternalId C) True,
                              Errorf ''reaper: Removed failed: %v'' [e]]))"
    by (simp add: o removeContainer_def)
  have 3: "\<forall>h' D v. D \<in> set post \<and> HostUUID D = host_UUID host
               \<and> Labels D uuidLabel = Some v \<and> v \<noteq> UUID D \<longrightarrow>
            ContainerInspect_call (ExternalId D)
              \<in> set (drop (length h') (onChange_loop w host post h'))"
    using onChange_loop_inspect_mem by blast
  show ?thesis using 1 2 3 by (intro conjI)
qed

theorem onChange_item_failures_isolated_witness:
  "GetSelfHost (w_c watcher_inspect_fails) [] = Inr host_H
   \<and> GetContainers (w_c watcher_inspect_fails) ([] @ [GetSelfHost_call])
       = Inr ([] @ container_a1 # [container_a3])
   \<and> HostUUID container_a1 = host_UUID host_H
   \<and> Labels container_a1 uuidLabel = Some ''a2''
   \<and> ''a2'' \<noteq> UUID container_a1
   \<and> ContainerInspect (w_dc watcher_inspect_fails) [GetSelfHost_call, GetContainers_call]
        (ExternalId container_a1) = Inl ''no such container''
   \<and> onChange watcher_inspect_fails ''1'' [] =
       (None, [GetSelfHost_call, GetContainers_call,
               ContainerInspect_call ''d1'', Errorf ''reaper: Inspect failed: %v'' [''no such container''],
               ContainerInspect_call ''d3'', Errorf ''reaper: Inspect failed: %v'' [''no such container'']])
   \<and> GetSelfHost (w_c watcher_remove_fails) [] = Inr host_H
   \<and> GetContainers (w_c watcher_remove_fails) ([] @ [GetSelfHost_call])
       = Inr ([] @ container_a1 # [container_a3])
   \<and> ContainerInspect (w_dc watcher_remove_fails) [GetSelfHost_call, GetContainers_call]
        (ExternalId container_a1) = Inr \<lparr>ContainerJSON_Name = ''/web-1''\<rparr>
   \<and> ContainerJSON_Name \<lparr>ContainerJSON_Name = ''/web-1''\<rparr> \<noteq> ''/rancher-agent''
   \<and> ContainerRemove (w_dc watcher_remove_fails)
        ([GetSelfHost_call, GetContainers_call]
         @ [ContainerInspect_call (ExternalId container_a1),
            Infof ''reaper:  Removing unmanaged container %s %s''
              [Name container_a1, ExternalId container_a1]])
        (ExternalId container_a1) True = Some ''busy''
   \<and> onChange watcher_remove_fails ''1'' [] =
       (None, [GetSelfHost_call, GetContainers_call,
               ContainerInspect_call ''d1'',
               Infof ''reaper:  Removing unmanaged container %s %s'' [''web-1'', ''d1''],
               ContainerRemove_call ''d1'' True, Errorf ''reaper: Removed failed: %v'' [''busy''],
               ContainerInspect_call ''d3'',
               Infof ''reaper:  Removing unmanaged container %s %s'' [''web-3'', ''d3''],
               ContainerRemove_call ''d3'' True, Errorf ''reaper: Removed failed: %v'' [''busy'']])
   \<and> ContainerInspect_call (ExternalId container_a3)
        \<in> set (drop (length [GetSelfHost_call]) (onChange_loop watcher_remove_fails host_H
                    [container_a3] [GetSelfHost_call]))"
  using onChange_item_failures_isolated [of watcher_inspect_fails "[]" host_H "[]" container_a1 "[container_a3]" "''a2''"
              "[GetSelfHost_call, GetContainers_call]" "''1''"]
    onChange_item_failures_isolated [of watcher_remove_fails "[]" host_H "[]" container_a1 "[container_a3]" "''a2''"
              "[GetSelfHost_call, GetContainers_call]" "''1''"]
  by (simp add: onChange_def removeContainer_def watcher_inspect_fails_def watcher_remove_fails_def
        fixed_metadata_def fixed_runtime_def container_a1_def container_a3_def host_H_def)

section \<open>Properties of the event bootstrap\<close>

text \<open>
  Claim C5.  When \<open>Process\<close> returns no error, it has created the runtime client and the
  router, started the router and then listed the containers of all states; after the
  listing its only calls are one send per listed container, in list order, of an event
  with that container's \<open>ID\<close>, the status \<open>start\<close> and the source \<open>-simulated-\<close>, to
  the listener of the router it started.
\<close>

theorem Process_replays_containers:
  assumes "Process env de h = (None, h')"
  shows "\<exists>dockerClient router handlers containers.
           ListContainers env
             (h @ [NewDockerClient_call,
                   NewEventRouter_call (poolSize de) (poolSize de) dockerClient handlers,
                   Start_call router]) dockerClient True = Inr containers
         \<and> h' = h @ [NewDockerClient_call,
                     NewEventRouter_call (poolSize de) (poolSize de) dockerClient handlers,
                     Start_call router, ListContainers_call dockerClient True]
                  @ map (\<lambda>c. listener_send router
                          \<lparr>APIEvents_ID = APIContainers_ID c, Status = ''start'',
                           From = ''-simulated-''\<rparr>) containers
         \<and> sent h' = sent h @ map (\<lambda>c. (router,
                          \<lparr>APIEvents_ID = APIContainers_ID c, Status = ''start'',
                           From = ''-simulated-''\<rparr>)) containers"
proof -
  obtain dockerClient where dc: "NewDockerClient env h = Inr dockerClient"
    using assms by (cases "NewDockerClient env h") (simp_all add: Process_def)
  define handlers where "handlers =
     [''start'' \<mapsto> [Watcher_Handler (bw de), StartHandler dockerClient, NetworkManagerHandler (nm de)],
      ''die'' \<mapsto> [NetworkManagerHandler (nm de)]]"
  obtain router where r: "NewEventRouter env (h @ [NewDockerClient_call]) (poolSize de) (poolSize de)
      dockerClient handlers = Inr router"
    using assms dc
    by (cases "NewEventRouter env (h @ [NewDockerClient_call]) (poolSize de) (poolSize de)
      dockerClient handlers") (simp_all add: Process_def handlers_def Let_def)
  let ?h3 = "h @ [NewDockerClient_call,
                   NewEventRouter_call (poolSize de) (poolSize de) dockerClient handlers,
                   Start_call router]"
  obtain containers where cs: "ListContainers env ?h3 dockerClient True = Inr containers"
    using assms dc r
    by (cases "ListContainers env ?h3 dockerClient True")
       (simp_all add: Process_def handlers_def Let_def)
  have h': "h' = ?h3 @ [ListContainers_call dockerClient True]
                  @ map (\<lambda>c. listener_send router
                          \<lparr>APIEvents_ID = APIContainers_ID c, Status = ''start'',
                           From = ''-simulated-''\<rparr>) containers"
    using assms dc r cs
    by (simp add: Process_def handlers_def Let_def replay_loop_eq simulatedEvent_def)
  have s: "sent h' = sent h @ map (\<lambda>c. (router,
                          \<lparr>APIEvents_ID = APIContainers_ID c, Status = ''start'',
                           From = ''-simulated-''\<rparr>)) containers"
    unfolding h' by (simp add: sent_append) (induction containers; simp)
  show ?thesis using cs h' s by auto
qed

theorem Process_replays_containers_witness:
  "Process env_D processor_D [] =
     (None, [NewDockerClient_call,
             NewEventRouter_call 10 10 1
               [''start'' \<mapsto> [Watcher_Handler 4, StartHandler 1, NetworkManagerHandler 3],
                ''die'' \<mapsto> [NetworkManagerHandler 3]],
             Start_call 2, ListContainers_call 1 True,
             listener_send 2 \<lparr>APIEvents_ID = ''c1'', Status = ''start'', From = ''-simulated-''\<rparr>,
             listener_send 2 \<lparr>APIEvents_ID = ''c2'', Status = ''start'', From = ''-simulated-''\<rparr>])
   \<and> sent (snd (Process env_D processor_D [])) =
       [(2, \<lparr>APIEvents_ID = ''c1'', Status = ''start'', From = ''-simulated-''\<rparr>),
        (2, \<lparr>APIEvents_ID = ''c2'', Status = ''start'', From = ''-simulated-''\<rparr>)]"
  using Process_replays_containers [of env_D processor_D "[]"
      "[NewDockerClient_call,
             NewEventRouter_call 10 10 1
               [''start'' \<mapsto> [Watcher_Handler 4, StartHandler 1, NetworkManagerHandler 3],
                ''die'' \<mapsto> [NetworkManagerHandler 3]],
             Start_call 2, ListContainers_call 1 True,
             listener_send 2 \<lparr>APIEvents_ID = ''c1'', Status = ''start'', From = ''-simulated-''\<rparr>,
             listener_send 2 \<lparr>APIEvents_ID = ''c2'', Status = ''start'', From = ''-simulated-''\<rparr>]"]
  by (simp add: Process_def env_D_def processor_D_def simulatedEvent_def Let_def)


text \<open>
  Claim C9.  Once the runtime client exists, the next call of \<open>Process\<close> constructs the
  event router with the pool size (twice), the client and a table that maps \<open>start\<close> to
  the binary-exec watcher, the start handler and the network-manager handler, in this
  order, maps \<open>die\<close> to the network-manager handler, and has no other key.  When the
  construction succeeds, the next call starts that router; no second router is
  constructed.
\<close>

theorem Process_routing_table:
  assumes "NewDockerClient env h = Inr dockerClient"
  shows "\<exists>handlers t.
           snd (Process env de h) =
             h @ NewDockerClient_call
               # NewEventRouter_call (poolSize de) (poolSize de) dockerClient handlers # t
         \<and> handlers ''start'' =
             Some [Watcher_Handler (bw de), StartHandler dockerClient, NetworkManagerHandler (nm de)]
         \<and> handlers ''die'' = Some [NetworkManagerHandler (nm de)]
         \<and> dom handlers = {''start'', ''die''}
         \<and> (\<forall>router. NewEventRouter env (h @ [NewDockerClient_call]) (poolSize de) (poolSize de)
                        dockerClient handlers = Inr router \<longrightarrow>
                      (\<exists>t'. t = Start_call router # t'))
         \<and> (\<forall>x \<in> set t. \<forall>p q d m. x \<noteq> NewEventRouter_call p q d m)"
proof -
  define handlers where "handlers =
     [''start'' \<mapsto> [Watcher_Handler (bw de), StartHandler dockerClient, NetworkManagerHandler (nm de)],
      ''die'' \<mapsto> [NetworkManagerHandler (nm de)]]"
  define t where "t = drop (length h + 2) (snd (Process env de h))"
  have 1: "snd (Process env de h) =
             h @ NewDockerClient_call
               # NewEventRouter_call (poolSize de) (poolSize de) dockerClient handlers # t"
    using assms
    by (simp add: t_def Process_def handlers_def Let_def replay_loop_eq split: sum.split)
  have 2: "handlers ''start'' =
             Some [Watcher_Handler (bw de), StartHandler dockerClient, NetworkManagerHandler (nm de)]"
    by (simp add: handlers_def)
  have 3: "handlers ''die'' = Some [NetworkManagerHandler (nm de)]"
    by (simp add: handlers_def)
  have 4: "dom handlers = {''start'', ''die''}"
    by (auto simp add: handlers_def)
  have 5: "\<forall>router. NewEventRouter env (h @ [NewDockerClient_call]) (poolSize de) (poolSize de)
                        dockerClient handlers = Inr router \<longrightarrow>
                      (\<exists>t'. t = Start_call router # t')"
    using assms
    by (simp add: t_def Process_def handlers_def Let_def replay_loop_eq split: sum.split)
  have 6: "\<forall>x \<in> set t. \<forall>p q d m. x \<noteq> NewEventRouter_call p q d m"
    using assms
    by (auto simp add: t_def Process_def handlers_def Let_def replay_loop_eq split: sum.split)
  show ?thesis using 1 2 3 4 5 6 by blast
qed

theorem Process_routing_table_witness:
  "NewDockerClient env_D [] = Inr 1
   \<and> NewEventRouter env_D ([] @ [NewDockerClient_call]) (poolSize processor_D) (poolSize processor_D) 1
        [''start'' \<mapsto> [Watcher_Handler 4, StartHandler 1, NetworkManagerHandler 3],
         ''die'' \<mapsto> [NetworkManagerHandler 3]] = Inr 2
   \<and> take 3 (snd (Process env_D processor_D [])) =
        [NewDockerClient_call,
         NewEventRouter_call 10 10 1
           [''start'' \<mapsto> [Watcher_Handler 4, StartHandler 1, NetworkManagerHandler 3],
            ''die'' \<mapsto> [NetworkManagerHandler 3]],
         Start_call 2]"
  using Process_routing_table [of env_D "[]" 1 processor_D]
  by (simp add: Process_def env_D_def processor_D_def Let_def)

end
